theory Spec2Isabelle
  imports Main "HOL-Library.Sublist"
begin

section \<open>Runtime values of the host language\<close>

text \<open>
  \<^verbatim>\<open>GLUtil.ts\<close> works on untyped JavaScript values. A value is a primitive or a
  reference to an object in the heap. Numbers are IEEE doubles in the source; the
  functions modelled here never compute with one, so a number is \<open>NaN\<close>, an infinity or a
  finite value with an integer payload. Strings are sequences of code units.
\<close>

type_synonym ref = nat

datatype number = NaN | PosInfinity | NegInfinity | Finite int

datatype val =
    VUndefined
  | VNull
  | VBool bool
  | VNum number
  | VStr string
  | VSym nat
  | VRef ref

text \<open>
  A function object is native code (\<open>Object.prototype.hasOwnProperty\<close> is the one the
  source calls), a function written in the program (named by a number, its behaviour given
  by the host record below), or the closure that \<open>deepClone\<close> builds at lines 176-180:
  \<^verbatim>\<open>function () { return sourceFunctionObject.apply(this, arguments); }\<close>,
  which only remembers \<open>sourceFunctionObject\<close>.
\<close>

datatype code =
    Builtin_hasOwnProperty
  | Forwarder ref
  | Source nat

text \<open>
  What the host's brand checks see in an object: \<open>Array.isArray\<close>, \<open>instanceof Map\<close>,
  \<open>instanceof Set\<close>, callable, or none of these. A Map keeps its entries and a Set its
  members in insertion order.
\<close>

datatype kind =
    ArrayK "val list"
  | MapK "(val \<times> val) list"
  | SetK "val list"
  | FunctionK code
  | PlainK

datatype property = Prop (content: val) (enumerable: bool)

text \<open>
  An object has a kind, its \<open>[[Prototype]]\<close> link (\<open>VNull\<close> or a reference) and its own
  string-keyed data properties, an association list in creation order whose first binding
  of a key is the property. Accessor properties, proxies, the writable and configurable
  attributes, symbol keys (which \<open>for-in\<close> never visits) and the index and \<open>length\<close>
  keys of arrays (kept in \<open>ArrayK\<close>) are not part of the model.
\<close>

datatype obj = Obj (kind: kind) (proto: val) (props: "(string \<times> property) list")

type_synonym heap = "obj list"

datatype error = TypeError

text \<open>
  The host: the version string behind \<open>window.navigator.appVersion\<close>, whether
  \<open>$global.Map\<close> and \<open>$global.Set\<close> are defined, the prototype objects that new arrays,
  maps, sets and functions get, the wrapper prototype a property read on a primitive
  goes through, and the behaviour of the program's own functions (receiver and arguments
  to result; they are taken to be pure).
\<close>

record host =
  appVersion :: string
  has_Map :: bool
  has_Set :: bool
  array_prototype :: val
  map_prototype :: val
  set_prototype :: val
  function_prototype :: val
  primitive_prototype :: "val \<Rightarrow> val"
  run :: "nat \<Rightarrow> val \<Rightarrow> val list \<Rightarrow> val"

section \<open>Reading and writing the heap\<close>

definition lookup :: "heap \<Rightarrow> ref \<Rightarrow> obj option" where
  "lookup h r = (if r < length h then Some (h ! r) else None)"

definition alloc :: "heap \<Rightarrow> obj \<Rightarrow> heap \<times> ref" where
  "alloc h ob = (h @ [ob], length h)"

definition modify :: "heap \<Rightarrow> ref \<Rightarrow> (obj \<Rightarrow> obj) \<Rightarrow> heap" where
  "modify h r f = (if r < length h then h[r := f (h ! r)] else h)"

text \<open>\<open>typeof\<close>; a reference that denotes no object has none.\<close>

definition typeof :: "heap \<Rightarrow> val \<Rightarrow> string option" where
  "typeof h v =
     (case v of
        VUndefined \<Rightarrow> Some ''undefined''
      | VNull \<Rightarrow> Some ''object''
      | VBool b \<Rightarrow> Some ''boolean''
      | VNum x \<Rightarrow> Some ''number''
      | VStr s \<Rightarrow> Some ''string''
      | VSym k \<Rightarrow> Some ''symbol''
      | VRef r \<Rightarrow>
          (case lookup h r of
             None \<Rightarrow> None
           | Some ob \<Rightarrow>
               (case kind ob of FunctionK c \<Rightarrow> Some ''function'' | _ \<Rightarrow> Some ''object'')))"

text \<open>The primitives that line 144 and line 147 return as they are.\<close>

definition is_primitive :: "val \<Rightarrow> bool" where
  "is_primitive v =
     (case v of
        VUndefined \<Rightarrow> True
      | VNull \<Rightarrow> True
      | VBool b \<Rightarrow> True
      | VNum x \<Rightarrow> True
      | VStr s \<Rightarrow> True
      | VSym k \<Rightarrow> False
      | VRef r \<Rightarrow> False)"

text \<open>The truthiness test of \<open>&&\<close>, \<open>?:\<close> and \<open>if\<close>.\<close>

definition truthy :: "val \<Rightarrow> bool" where
  "truthy v =
     (case v of
        VUndefined \<Rightarrow> False
      | VNull \<Rightarrow> False
      | VBool b \<Rightarrow> b
      | VNum x \<Rightarrow> x \<noteq> NaN \<and> x \<noteq> Finite 0
      | VStr s \<Rightarrow> s \<noteq> []
      | VSym k \<Rightarrow> True
      | VRef r \<Rightarrow> True)"

text \<open>The operator \<open>===\<close>: equality of values, except that \<open>NaN\<close> equals nothing.\<close>

definition strict_eq :: "val \<Rightarrow> val \<Rightarrow> bool" where
  "strict_eq a b = (a = b \<and> a \<noteq> VNum NaN)"

definition isArray :: "heap \<Rightarrow> val \<Rightarrow> bool" where
  "isArray h v =
     (case v of
        VRef r \<Rightarrow>
          (case lookup h r of
             Some ob \<Rightarrow> (case kind ob of ArrayK es \<Rightarrow> True | _ \<Rightarrow> False)
           | None \<Rightarrow> False)
      | _ \<Rightarrow> False)"

text \<open>
  \<open>instanceof\<close> is decided by the kind of the object: the prototype chains of maps, sets
  and functions are taken to be the ones the host gave them.
\<close>

definition instanceof_Map :: "heap \<Rightarrow> val \<Rightarrow> bool" where
  "instanceof_Map h v =
     (case v of
        VRef r \<Rightarrow>
          (case lookup h r of
             Some ob \<Rightarrow> (case kind ob of MapK es \<Rightarrow> True | _ \<Rightarrow> False)
           | None \<Rightarrow> False)
      | _ \<Rightarrow> False)"

definition instanceof_Set :: "heap \<Rightarrow> val \<Rightarrow> bool" where
  "instanceof_Set h v =
     (case v of
        VRef r \<Rightarrow>
          (case lookup h r of
             Some ob \<Rightarrow> (case kind ob of SetK es \<Rightarrow> True | _ \<Rightarrow> False)
           | None \<Rightarrow> False)
      | _ \<Rightarrow> False)"

definition instanceof_Function :: "heap \<Rightarrow> val \<Rightarrow> bool" where
  "instanceof_Function h v =
     (case v of
        VRef r \<Rightarrow>
          (case lookup h r of
             Some ob \<Rightarrow> (case kind ob of FunctionK c \<Rightarrow> True | _ \<Rightarrow> False)
           | None \<Rightarrow> False)
      | _ \<Rightarrow> False)"

text \<open>
  \<open>instanceof Object\<close> holds of objects only. The source tests it together with
  \<open>typeof sourceObject === "object"\<close>, which is true of every object that is not
  callable, so at line 190 the disjunction is decided by \<open>typeof\<close> whatever the chain of
  the object is.
\<close>

definition instanceof_Object :: "heap \<Rightarrow> val \<Rightarrow> bool" where
  "instanceof_Object h v =
     (case v of VRef r \<Rightarrow> lookup h r \<noteq> None | _ \<Rightarrow> False)"

text \<open>The elements \<open>a[0], ..., a[a.length - 1]\<close> of an array (a hole reads as \<open>undefined\<close>).\<close>

definition elements :: "heap \<Rightarrow> val \<Rightarrow> val list" where
  "elements h v =
     (case v of
        VRef r \<Rightarrow>
          (case lookup h r of
             Some ob \<Rightarrow> (case kind ob of ArrayK es \<Rightarrow> es | _ \<Rightarrow> [])
           | None \<Rightarrow> [])
      | _ \<Rightarrow> [])"

definition entries :: "heap \<Rightarrow> val \<Rightarrow> (val \<times> val) list" where
  "entries h v =
     (case v of
        VRef r \<Rightarrow>
          (case lookup h r of
             Some ob \<Rightarrow> (case kind ob of MapK es \<Rightarrow> es | _ \<Rightarrow> [])
           | None \<Rightarrow> [])
      | _ \<Rightarrow> [])"

definition members :: "heap \<Rightarrow> val \<Rightarrow> val list" where
  "members h v =
     (case v of
        VRef r \<Rightarrow>
          (case lookup h r of
             Some ob \<Rightarrow> (case kind ob of SetK es \<Rightarrow> es | _ \<Rightarrow> [])
           | None \<Rightarrow> [])
      | _ \<Rightarrow> [])"

text \<open>
  Property read \<open>v[k]\<close>: the own property, else the one of the prototype, and so on up the
  chain; \<open>undefined\<close> when the chain ends. The walk has fuel; \<open>None\<close> says that the chain
  leaves the heap or does not end, which no program can build.
\<close>

fun get_chain :: "nat \<Rightarrow> heap \<Rightarrow> val \<Rightarrow> string \<Rightarrow> val option" where
  "get_chain 0 h v k = None"
| "get_chain (Suc n) h v k =
     (case v of
        VNull \<Rightarrow> Some VUndefined
      | VRef r \<Rightarrow>
          (case lookup h r of
             None \<Rightarrow> None
           | Some ob \<Rightarrow>
               (case map_of (props ob) k of
                  Some p \<Rightarrow> Some (content p)
                | None \<Rightarrow> get_chain n h (proto ob) k))
      | _ \<Rightarrow> None)"

text \<open>
  A chain without a cycle visits at most \<open>length h\<close> objects before it ends. A read on
  \<open>undefined\<close> or \<open>null\<close> raises in the source; no modelled read is on one of them. A
  read on another primitive starts at its wrapper prototype.
\<close>

definition get :: "host \<Rightarrow> heap \<Rightarrow> val \<Rightarrow> string \<Rightarrow> val option" where
  "get host h v k =
     (case v of
        VUndefined \<Rightarrow> None
      | VNull \<Rightarrow> None
      | VRef r \<Rightarrow> get_chain (Suc (length h)) h v k
      | _ \<Rightarrow> get_chain (Suc (length h)) h (primitive_prototype host v) k)"

text \<open>
  The keys a \<open>for (var key in v)\<close> visits: the enumerable own keys, then those of the
  prototype that no object earlier in the chain has as an own key (enumerable or not),
  and so on. The order within one object is taken as the list order.
\<close>

definition own_keys :: "obj \<Rightarrow> string list" where
  "own_keys ob = remdups (map fst (props ob))"

definition own_enumerable :: "obj \<Rightarrow> string \<Rightarrow> bool" where
  "own_enumerable ob k =
     (case map_of (props ob) k of Some p \<Rightarrow> enumerable p | None \<Rightarrow> False)"

fun forin_chain :: "nat \<Rightarrow> heap \<Rightarrow> val \<Rightarrow> string list \<Rightarrow> string list option" where
  "forin_chain 0 h v seen = None"
| "forin_chain (Suc n) h v seen =
     (case v of
        VNull \<Rightarrow> Some []
      | VRef r \<Rightarrow>
          (case lookup h r of
             None \<Rightarrow> None
           | Some ob \<Rightarrow>
               (case forin_chain n h (proto ob) (seen @ own_keys ob) of
                  None \<Rightarrow> None
                | Some ks \<Rightarrow>
                    Some (filter (\<lambda>k. own_enumerable ob k \<and> k \<notin> set seen) (own_keys ob) @ ks)))
      | _ \<Rightarrow> None)"

definition forin :: "heap \<Rightarrow> val \<Rightarrow> string list option" where
  "forin h v = forin_chain (Suc (length h)) h v []"

text \<open>
  Assignment \<open>o[k] = v\<close> to an object of the clone's own making: the own property gets the
  new content, or a new enumerable property is added.
\<close>

fun put_prop :: "(string \<times> property) list \<Rightarrow> string \<Rightarrow> val \<Rightarrow> (string \<times> property) list" where
  "put_prop [] k v = [(k, Prop v True)]"
| "put_prop ((k', p) # ps) k v =
     (if k' = k then (k', Prop v (enumerable p)) # ps else (k', p) # put_prop ps k v)"

definition put :: "heap \<Rightarrow> ref \<Rightarrow> string \<Rightarrow> val \<Rightarrow> heap" where
  "put h r k v = modify h r (\<lambda>ob. Obj (kind ob) (proto ob) (put_prop (props ob) k v))"

text \<open>\<open>Array.prototype.push\<close>, \<open>Map.prototype.set\<close> and \<open>Set.prototype.add\<close>.\<close>

definition push :: "heap \<Rightarrow> ref \<Rightarrow> val \<Rightarrow> heap" where
  "push h r v =
     modify h r (\<lambda>ob. case kind ob of
                        ArrayK es \<Rightarrow> Obj (ArrayK (es @ [v])) (proto ob) (props ob)
                      | _ \<Rightarrow> ob)"

fun set_entry :: "(val \<times> val) list \<Rightarrow> val \<Rightarrow> val \<Rightarrow> (val \<times> val) list" where
  "set_entry [] k v = [(k, v)]"
| "set_entry ((k', v') # es) k v =
     (if k' = k then (k', v) # es else (k', v') # set_entry es k v)"

definition map_set :: "heap \<Rightarrow> ref \<Rightarrow> val \<Rightarrow> val \<Rightarrow> heap" where
  "map_set h r k v =
     modify h r (\<lambda>ob. case kind ob of
                        MapK es \<Rightarrow> Obj (MapK (set_entry es k v)) (proto ob) (props ob)
                      | _ \<Rightarrow> ob)"

definition set_add :: "heap \<Rightarrow> ref \<Rightarrow> val \<Rightarrow> heap" where
  "set_add h r v =
     modify h r (\<lambda>ob. case kind ob of
                        SetK es \<Rightarrow>
                          Obj (SetK (if v \<in> set es then es else es @ [v])) (proto ob) (props ob)
                      | _ \<Rightarrow> ob)"

section \<open>Calling functions\<close>

text \<open>
  \<open>Object.prototype.hasOwnProperty\<close> with receiver \<open>this\<close>: whether the key is an own
  property, enumerable or not. It raises on \<open>undefined\<close> and \<open>null\<close>. The source calls it
  on objects with a string key; other receivers and keys are not modelled.
\<close>

definition hasOwnProperty :: "heap \<Rightarrow> val \<Rightarrow> val list \<Rightarrow> (error + val) option" where
  "hasOwnProperty h this args =
     (case this of
        VUndefined \<Rightarrow> Some (Inl TypeError)
      | VNull \<Rightarrow> Some (Inl TypeError)
      | VRef r \<Rightarrow>
          (case lookup h r of
             None \<Rightarrow> None
           | Some ob \<Rightarrow>
               (case args of
                  VStr k # rest \<Rightarrow> Some (Inr (VBool (k \<in> set (own_keys ob))))
                | _ \<Rightarrow> None))
      | _ \<Rightarrow> None)"

text \<open>
  A call \<open>f.apply(this, args)\<close>. Calling what is not a function raises \<open>TypeError\<close>. A
  forwarder calls the function it remembers with the same receiver and arguments. The fuel
  bounds the chain of forwarders; \<open>None\<close> says that the call does not return.
\<close>

fun call :: "host \<Rightarrow> nat \<Rightarrow> heap \<Rightarrow> val \<Rightarrow> val \<Rightarrow> val list \<Rightarrow> (error + val) option" where
  "call host 0 h f this args = None"
| "call host (Suc n) h f this args =
     (case f of
        VRef r \<Rightarrow>
          (case lookup h r of
             None \<Rightarrow> None
           | Some ob \<Rightarrow>
               (case kind ob of
                  FunctionK c \<Rightarrow>
                    (case c of
                       Builtin_hasOwnProperty \<Rightarrow> hasOwnProperty h this args
                     | Forwarder sourceFunctionObject \<Rightarrow>
                         call host n h (VRef sourceFunctionObject) this args
                     | Source k \<Rightarrow> Some (Inr (run host k this args)))
                | _ \<Rightarrow> Some (Inl TypeError)))
      | _ \<Rightarrow> Some (Inl TypeError))"

text \<open>A chain of forwarders without a cycle has at most \<open>length h\<close> members.\<close>

definition invoke :: "host \<Rightarrow> heap \<Rightarrow> val \<Rightarrow> val \<Rightarrow> val list \<Rightarrow> (error + val) option" where
  "invoke host h f this args = call host (Suc (length h)) h f this args"

text \<open>The method call \<open>v.name(args)\<close>.\<close>

definition call_method :: "host \<Rightarrow> heap \<Rightarrow> val \<Rightarrow> string \<Rightarrow> val list \<Rightarrow> (error + val) option" where
  "call_method host h v name args =
     (case get host h v name of
        None \<Rightarrow> None
      | Some f \<Rightarrow> invoke host h f v args)"

section \<open>deepClone\<close>

text \<open>
  A call of \<open>deepClone\<close> returns a value or raises, in a heap that it may have extended:
  \<open>Some (h', Inr v)\<close> or \<open>Some (h', Inl e)\<close>. \<open>None\<close> says that the call does not return.
\<close>

type_synonym result = "(heap \<times> (error + val)) option"

text \<open>
  Lines 152-156: \<open>tmpArray\<close> exists before the first element is cloned, and every clone is
  pushed onto it. The elements are those of the source array when the loop starts: no
  step of \<open>deepClone\<close> writes to an object that existed before the call.
\<close>

fun array_loop :: "(heap \<Rightarrow> val \<Rightarrow> result) \<Rightarrow> heap \<Rightarrow> ref \<Rightarrow> val list \<Rightarrow> result" where
  "array_loop clone h tmpArray [] = Some (h, Inr (VRef tmpArray))"
| "array_loop clone h tmpArray (x # xs) =
     (case clone h x of
        None \<Rightarrow> None
      | Some (h', Inl e) \<Rightarrow> Some (h', Inl e)
      | Some (h', Inr v) \<Rightarrow> array_loop clone (push h' tmpArray v) tmpArray xs)"

text \<open>Lines 161-163 and 168-170: the callbacks of \<open>forEach\<close> insert what they are given.\<close>

fun map_loop :: "heap \<Rightarrow> ref \<Rightarrow> (val \<times> val) list \<Rightarrow> heap" where
  "map_loop h newMap [] = h"
| "map_loop h newMap ((k, v) # es) = map_loop (map_set h newMap k v) newMap es"

fun set_loop :: "heap \<Rightarrow> ref \<Rightarrow> val list \<Rightarrow> heap" where
  "set_loop h newSet [] = h"
| "set_loop h newSet (v # vs) = set_loop (set_add h newSet v) newSet vs"

text \<open>Lines 182-186: the own enumerable properties of the function are assigned to \<open>fn\<close>.\<close>

fun function_loop :: "host \<Rightarrow> heap \<Rightarrow> val \<Rightarrow> ref \<Rightarrow> string list \<Rightarrow> result" where
  "function_loop host h sourceFunctionObject fn [] = Some (h, Inr (VRef fn))"
| "function_loop host h sourceFunctionObject fn (key # keys) =
     (case call_method host h sourceFunctionObject ''hasOwnProperty'' [VStr key] of
        None \<Rightarrow> None
      | Some (Inl e) \<Rightarrow> Some (h, Inl e)
      | Some (Inr own) \<Rightarrow>
          if truthy own then
            (case get host h sourceFunctionObject key of
               None \<Rightarrow> None
             | Some v \<Rightarrow> function_loop host (put h fn key v) sourceFunctionObject fn keys)
          else function_loop host h sourceFunctionObject fn keys)"

text \<open>Lines 195 and 200: \<open>newObject[key] = GLUtil.deepClone(sourceObject[key])\<close>.\<close>

definition copy_property ::
  "host \<Rightarrow> (heap \<Rightarrow> val \<Rightarrow> result) \<Rightarrow> heap \<Rightarrow> val \<Rightarrow> ref \<Rightarrow> string \<Rightarrow> result" where
  "copy_property host clone h sourceObject newObject key =
     (case get host h sourceObject key of
        None \<Rightarrow> None
      | Some x \<Rightarrow>
          (case clone h x of
             None \<Rightarrow> None
           | Some (h', Inl e) \<Rightarrow> Some (h', Inl e)
           | Some (h', Inr v) \<Rightarrow> Some (put h' newObject key v, Inr (VRef newObject))))"

text \<open>Lines 193-197: the loop guarded by \<open>sourceObject.hasOwnProperty(key)\<close>.\<close>

fun own_loop ::
  "host \<Rightarrow> (heap \<Rightarrow> val \<Rightarrow> result) \<Rightarrow> heap \<Rightarrow> val \<Rightarrow> ref \<Rightarrow> string list \<Rightarrow> result" where
  "own_loop host clone h sourceObject newObject [] = Some (h, Inr (VRef newObject))"
| "own_loop host clone h sourceObject newObject (key # keys) =
     (case call_method host h sourceObject ''hasOwnProperty'' [VStr key] of
        None \<Rightarrow> None
      | Some (Inl e) \<Rightarrow> Some (h, Inl e)
      | Some (Inr own) \<Rightarrow>
          if truthy own then
            (case copy_property host clone h sourceObject newObject key of
               None \<Rightarrow> None
             | Some (h', Inl e) \<Rightarrow> Some (h', Inl e)
             | Some (h', Inr v) \<Rightarrow> own_loop host clone h' sourceObject newObject keys)
          else own_loop host clone h sourceObject newObject keys)"

text \<open>Lines 199-201: the loop over all visible keys.\<close>

fun all_loop ::
  "host \<Rightarrow> (heap \<Rightarrow> val \<Rightarrow> result) \<Rightarrow> heap \<Rightarrow> val \<Rightarrow> ref \<Rightarrow> string list \<Rightarrow> result" where
  "all_loop host clone h sourceObject newObject [] = Some (h, Inr (VRef newObject))"
| "all_loop host clone h sourceObject newObject (key # keys) =
     (case copy_property host clone h sourceObject newObject key of
        None \<Rightarrow> None
      | Some (h', Inl e) \<Rightarrow> Some (h', Inl e)
      | Some (h', Inr v) \<Rightarrow> all_loop host clone h' sourceObject newObject keys)"

text \<open>
  The function of lines 143-206. The first argument after the host bounds the depth of
  the recursion, which has no bound in the source. The closure \<open>fn\<close> is born with the own
  properties \<open>length\<close>, \<open>name\<close> and \<open>prototype\<close>, none of them enumerable; the object that
  the host first puts under \<open>prototype\<close> is dropped by line 181 before anything can see it
  and is not allocated here.
\<close>

primrec deepClone :: "host \<Rightarrow> nat \<Rightarrow> heap \<Rightarrow> val \<Rightarrow> result" where
  "deepClone host 0 h sourceObject = None"
| "deepClone host (Suc n) h sourceObject =
     (case typeof h sourceObject of
        None \<Rightarrow> None
      | Some t \<Rightarrow>
          if sourceObject = VUndefined \<or> sourceObject = VNull
             \<or> sourceObject = VBool True \<or> sourceObject = VBool False
          then Some (h, Inr sourceObject)
          else if t = ''string'' \<or> t = ''number''
          then Some (h, Inr sourceObject)
          else if isArray h sourceObject
          then
            (case alloc h (Obj (ArrayK []) (array_prototype host) []) of
               (h1, tmpArray) \<Rightarrow>
                 array_loop (deepClone host n) h1 tmpArray (elements h1 sourceObject))
          else if has_Map host \<and> instanceof_Map h sourceObject
          then
            (case alloc h (Obj (MapK []) (map_prototype host) []) of
               (h1, newMap) \<Rightarrow>
                 Some (map_loop h1 newMap (entries h1 sourceObject), Inr (VRef newMap)))
          else if has_Set host \<and> instanceof_Set h sourceObject
          then
            (case alloc h (Obj (SetK []) (set_prototype host) []) of
               (h1, newSet) \<Rightarrow>
                 Some (set_loop h1 newSet (members h1 sourceObject), Inr (VRef newSet)))
          else if instanceof_Function h sourceObject \<or> t = ''function''
          then
            (case sourceObject of
               VRef sourceFunctionObject \<Rightarrow>
                 (case alloc h (Obj (FunctionK (Forwarder sourceFunctionObject))
                                  (function_prototype host)
                                  [(''length'', Prop (VNum (Finite 0)) False),
                                   (''name'', Prop (VStr []) False),
                                   (''prototype'', Prop VUndefined False)]) of
                    (h1, fn) \<Rightarrow>
                      (case get host h1 sourceObject ''prototype'' of
                         None \<Rightarrow> None
                       | Some p \<Rightarrow>
                           (case put h1 fn ''prototype'' p of
                              h2 \<Rightarrow>
                                (case forin h2 sourceObject of
                                   None \<Rightarrow> None
                                 | Some keys \<Rightarrow>
                                     function_loop host h2 sourceObject fn keys))))
             | _ \<Rightarrow> None)
          else if instanceof_Object h sourceObject \<or> t = ''object''
          then
            (case alloc h (Obj PlainK VNull []) of
               (h1, newObject) \<Rightarrow>
                 (case get host h1 sourceObject ''hasOwnProperty'' of
                    None \<Rightarrow> None
                  | Some hop \<Rightarrow>
                      (case typeof h1 hop of
                         None \<Rightarrow> None
                       | Some thop \<Rightarrow>
                           (case forin h1 sourceObject of
                              None \<Rightarrow> None
                            | Some keys \<Rightarrow>
                                if thop = ''function''
                                then own_loop host (deepClone host n) h1 sourceObject newObject keys
                                else all_loop host (deepClone host n) h1 sourceObject newObject keys))))
          else Some (h, Inr VUndefined))"



section \<open>isClassDefinition\<close>

text \<open>\<open>String.prototype.indexOf\<close>: the first position of the pattern, or \<open>-1\<close>.\<close>

fun indexOf_from :: "string \<Rightarrow> string \<Rightarrow> nat \<Rightarrow> int" where
  "indexOf_from [] pat i = (if pat = [] then int i else - 1)"
| "indexOf_from (c # cs) pat i =
     (if prefix pat (c # cs) then int i else indexOf_from cs pat (Suc i))"

definition indexOf :: "string \<Rightarrow> string \<Rightarrow> int" where
  "indexOf s pat = indexOf_from s pat 0"

text \<open>Line 51.\<close>

definition isIE11 :: "host \<Rightarrow> bool" where
  "isIE11 host =
     (indexOf (appVersion host) ''Trident/7.0'' \<ge> 0 \<and> indexOf (appVersion host) ''rv:11.0'' \<ge> 0)"

text \<open>
  Lines 46-56. The property reads of line 54 happen only behind the truthiness tests, so
  none is on \<open>undefined\<close> or \<open>null\<close>. \<open>None\<close> says that a read has no result.
\<close>

definition isClassDefinition :: "host \<Rightarrow> heap \<Rightarrow> val \<Rightarrow> bool option" where
  "isClassDefinition host h v =
     (case typeof h v of
        None \<Rightarrow> None
      | Some t \<Rightarrow>
          (let typeCheck = (if t = ''function'' then True else isIE11 host \<and> t = ''object'') in
           (if truthy v then
              (case get host h v ''prototype'' of
                 None \<Rightarrow> None
               | Some p \<Rightarrow>
                   if truthy p then
                     (case get host h p ''constructor'' of
                        None \<Rightarrow> None
                      | Some c \<Rightarrow> Some (typeCheck \<and> strict_eq c v))
                   else Some (typeCheck \<and> False))
            else Some (typeCheck \<and> False))))"

section \<open>padLeft\<close>

text \<open>
  \<open>String.prototype.substring\<close> with integer arguments: both are clamped to the string
  and swapped when the first is the larger.
\<close>

definition substring :: "string \<Rightarrow> int \<Rightarrow> int \<Rightarrow> string" where
  "substring s a b =
     (let len = int (length s);
          a' = min (max a 0) len;
          b' = min (max b 0) len;
          from = min a' b';
          to = max a' b'
      in take (nat (to - from)) (drop (nat from) s))"

text \<open>
  Lines 276-278. The loop does not end when \<open>padWith\<close> is empty and the string is too
  short; not returning is the value \<open>None\<close>. \<open>targetLength\<close> is an integer.
\<close>

partial_function (option) padLeft_loop :: "string \<Rightarrow> int \<Rightarrow> string \<Rightarrow> string option" where
  "padLeft_loop str targetLength padWith =
     (if int (length str) < targetLength
      then padLeft_loop (padWith @ str) targetLength padWith
      else Some str)"

declare padLeft_loop.simps [code]

text \<open>Lines 275-283.\<close>

definition padLeft :: "string \<Rightarrow> int \<Rightarrow> string \<Rightarrow> string option" where
  "padLeft str targetLength padWith =
     (case padLeft_loop str targetLength padWith of
        None \<Rightarrow> None
      | Some str1 \<Rightarrow>
          if int (length str1) > targetLength
          then Some (substring str1 (int (length str1) - targetLength) (int (length str1) - 1))
          else Some str1)"

section \<open>A host and heaps for the examples\<close>

text \<open>
  A small realm: \<open>Object.prototype\<close> at 0 with the native \<open>hasOwnProperty\<close> at 1,
  \<open>Function.prototype\<close> at 2, \<open>Array.prototype\<close> at 3, \<open>Map.prototype\<close> at 4 and
  \<open>Set.prototype\<close> at 5. The host is a browser that is not Internet Explorer 11 and has
  \<open>Map\<close> and \<open>Set\<close>; every function of the program adds one to a numeric argument.
\<close>

definition realm :: heap where
  "realm =
     [Obj PlainK VNull [(''hasOwnProperty'', Prop (VRef 1) False)],
      Obj (FunctionK Builtin_hasOwnProperty) (VRef 2) [],
      Obj (FunctionK (Source 0)) (VRef 0) [],
      Obj (ArrayK []) (VRef 0) [],
      Obj PlainK (VRef 0) [],
      Obj PlainK (VRef 0) []]"

definition browser :: host where
  "browser =
     \<lparr> appVersion = ''5.0 (X11)'', has_Map = True, has_Set = True,
       array_prototype = VRef 3, map_prototype = VRef 4, set_prototype = VRef 5,
       function_prototype = VRef 2, primitive_prototype = (\<lambda>v. VRef 0),
       run = (\<lambda>k this args.
                case args of [VNum (Finite y)] \<Rightarrow> VNum (Finite (y + 1)) | _ \<Rightarrow> VUndefined) \<rparr>"


text \<open>A class: its prototype object at 6, the constructor function at 7.\<close>

definition class_heap :: heap where
  "class_heap =
     realm @ [Obj PlainK (VRef 0) [(''constructor'', Prop (VRef 7) False)],
              Obj (FunctionK (Source 1)) (VRef 2) [(''prototype'', Prop (VRef 6) False)]]"




text \<open>A function at 6 with \<open>g.hasOwnProperty = 5\<close>.\<close>

definition shadowing_function :: heap where
  "shadowing_function =
     realm @ [Obj (FunctionK (Source 1)) (VRef 2)
                [(''hasOwnProperty'', Prop (VNum (Finite 5)) True)]]"

text \<open>A Map at 7 with the one entry \<open>"k"\<close> to the array \<open>[1]\<close> at 6.\<close>

definition map_heap :: heap where
  "map_heap =
     realm @ [Obj (ArrayK [VNum (Finite 1)]) (VRef 3) [],
              Obj (MapK [(VStr ''k'', VRef 6)]) (VRef 4) []]"

text \<open>A Set at 7 with the array \<open>[1]\<close> at 6 as its one member.\<close>

definition set_heap :: heap where
  "set_heap =
     realm @ [Obj (ArrayK [VNum (Finite 1)]) (VRef 3) [],
              Obj (SetK [VRef 6]) (VRef 5) []]"

text \<open>
  A function \<open>f\<close> at 8 with \<open>f.tag = "x"\<close> and \<open>f.data = [1]\<close> (the array at 6); its
  \<open>prototype\<close> object is at 7.
\<close>

definition function_heap :: heap where
  "function_heap =
     realm @ [Obj (ArrayK [VNum (Finite 1)]) (VRef 3) [],
              Obj PlainK (VRef 0) [(''constructor'', Prop (VRef 8) False)],
              Obj (FunctionK (Source 1)) (VRef 2)
                [(''prototype'', Prop (VRef 7) False),
                 (''tag'', Prop (VStr ''x'') True),
                 (''data'', Prop (VRef 6) True)]]"

section \<open>Reads survive allocation\<close>

text \<open>
  A heap \<open>h'\<close> that extends \<open>h\<close> by new objects (\<open>prefix h h'\<close>) answers every read that
  \<open>h\<close> answers, and with the same result.
\<close>

lemma lookup_prefix: "lookup h r = Some ob \<Longrightarrow> prefix h h' \<Longrightarrow> lookup h' r = Some ob"
  by (auto simp: lookup_def prefix_def nth_append split: if_splits)











section \<open>deepClone only allocates\<close>











section \<open>Values that can be cloned\<close>

text \<open>What a reference denotes, and whether a value can be cloned, survive allocation.\<close>

lemma shape_prefix:
  assumes "typeof h v = Some t" and "prefix h h'"
  shows "isArray h' v = isArray h v" and "instanceof_Map h' v = instanceof_Map h v"
    and "instanceof_Set h' v = instanceof_Set h v"
    and "instanceof_Function h' v = instanceof_Function h v"
    and "instanceof_Object h' v = instanceof_Object h v"
    and "elements h' v = elements h v" and "entries h' v = entries h v"
    and "members h' v = members h v"
proof -
  have "isArray h' v = isArray h v \<and> instanceof_Map h' v = instanceof_Map h v
      \<and> instanceof_Set h' v = instanceof_Set h v
      \<and> instanceof_Function h' v = instanceof_Function h v
      \<and> instanceof_Object h' v = instanceof_Object h v
      \<and> elements h' v = elements h v \<and> entries h' v = entries h v
      \<and> members h' v = members h v"
  proof (cases v)
    case (VRef r)
    with assms(1) obtain ob where ob: "lookup h r = Some ob"
      by (auto simp: typeof_def split: option.splits)
    from ob lookup_prefix [OF ob assms(2)] VRef show ?thesis
      by (simp add: isArray_def instanceof_Map_def instanceof_Set_def instanceof_Function_def
          instanceof_Object_def elements_def entries_def members_def)
  qed (simp_all add: isArray_def instanceof_Map_def instanceof_Set_def instanceof_Function_def
          instanceof_Object_def elements_def entries_def members_def)
  then show "isArray h' v = isArray h v" and "instanceof_Map h' v = instanceof_Map h v"
    and "instanceof_Set h' v = instanceof_Set h v"
    and "instanceof_Function h' v = instanceof_Function h v"
    and "instanceof_Object h' v = instanceof_Object h v"
    and "elements h' v = elements h v" and "entries h' v = entries h v"
    and "members h' v = members h v" by blast+
qed




section \<open>The loops run to their end\<close>












section \<open>deepClone returns on what can be cloned\<close>





section \<open>Claims\<close>

subsection \<open>Primitives\<close>

text \<open>
  Claim C6, as stated, fails at one value: \<open>deepClone(NaN)\<close> is \<open>NaN\<close>, and \<open>===\<close> does not
  hold between \<open>NaN\<close> and \<open>NaN\<close>.
\<close>

theorem deepClone_NaN_counterexample:
  "\<exists>r. deepClone browser 1 realm (VNum NaN) = Some (realm, Inr r) \<and> \<not> strict_eq r (VNum NaN)"
  by (simp add: typeof_def strict_eq_def)

text \<open>
  Claim C6, amended. For every boolean, number, string, \<open>undefined\<close> and \<open>null\<close>, a call of
  \<open>deepClone\<close> of whatever depth returns the very value it was given and leaves the heap as
  it was; the result is \<open>===\<close> to the argument for all of them but \<open>NaN\<close>.
\<close>

theorem deepClone_primitive_identity:
  assumes "is_primitive v"
  shows "\<exists>r. deepClone host (Suc n) h v = Some (h, Inr r) \<and> r = v
           \<and> (strict_eq r v \<longleftrightarrow> v \<noteq> VNum NaN)"
proof (cases v)
  case (VBool b)
  then show ?thesis by (cases b) (simp_all add: typeof_def strict_eq_def)
qed (use assms in \<open>auto simp: is_primitive_def typeof_def strict_eq_def\<close>)

theorem deepClone_primitive_identity_witness:
  "is_primitive (VNum (Finite 42))
   \<and> deepClone browser (Suc 0) realm (VNum (Finite 42)) = Some (realm, Inr (VNum (Finite 42)))
   \<and> strict_eq (VNum (Finite 42)) (VNum (Finite 42))
   \<and> is_primitive (VStr ''x'')
   \<and> deepClone browser (Suc 0) realm (VStr ''x'') = Some (realm, Inr (VStr ''x''))
   \<and> is_primitive VNull
   \<and> deepClone browser (Suc 0) realm VNull = Some (realm, Inr VNull)"
proof -
  have a: "is_primitive (VNum (Finite 42))" and b: "is_primitive (VStr ''x'')"
    and c: "is_primitive VNull"
    by (simp_all add: is_primitive_def)
  from deepClone_primitive_identity [OF a, of browser 0 realm]
       deepClone_primitive_identity [OF b, of browser 0 realm]
       deepClone_primitive_identity [OF c, of browser 0 realm]
       a b c
  show ?thesis by auto
qed

subsection \<open>isClassDefinition\<close>

text \<open>
  Claim C9. On a host that is not Internet Explorer 11, \<open>isClassDefinition\<close> is true
  exactly when the value is a function whose \<open>prototype\<close> is present (truthy) and has the
  value itself as its \<open>constructor\<close>; in every other case in which the reads of line 54
  have results it is false: the value is not a function, its \<open>prototype\<close> is absent, or
  the \<open>constructor\<close> of the prototype is something else.
\<close>

theorem isClassDefinition_not_IE11:
  assumes "\<not> isIE11 host"
  shows "(isClassDefinition host h v = Some True \<longleftrightarrow>
            typeof h v = Some ''function''
            \<and> (\<exists>p. get host h v ''prototype'' = Some p \<and> truthy p
                    \<and> get host h p ''constructor'' = Some v))
       \<and> (isClassDefinition host h v = Some False \<longleftrightarrow>
            (typeof h v \<noteq> None
             \<and> (truthy v \<longrightarrow>
                  (\<exists>p. get host h v ''prototype'' = Some p
                       \<and> (truthy p \<longrightarrow> get host h p ''constructor'' \<noteq> None))))
            \<and> \<not> (typeof h v = Some ''function''
                  \<and> (\<exists>p. get host h v ''prototype'' = Some p \<and> truthy p
                          \<and> get host h p ''constructor'' = Some v)))"
proof -
  have fun_truthy: "typeof h v = Some ''function'' \<Longrightarrow> truthy v"
    by (cases v) (auto simp: typeof_def truthy_def split: option.splits kind.splits)
  have nan: "truthy v \<Longrightarrow> v \<noteq> VNum NaN"
    by (auto simp: truthy_def)
  show ?thesis
  proof (cases "typeof h v")
    case None
    then show ?thesis by (simp add: isClassDefinition_def)
  next
    case (Some t)
    show ?thesis
    proof (cases "truthy v")
      case False
      with Some fun_truthy show ?thesis by (auto simp: isClassDefinition_def)
    next
      case True
      note tv = this
      show ?thesis
      proof (cases "get host h v ''prototype''")
        case None
        with Some tv show ?thesis by (simp add: isClassDefinition_def)
      next
        case (Some p)
        note p = this
        show ?thesis
        proof (cases "truthy p")
          case False
          with \<open>typeof h v = Some t\<close> tv p show ?thesis by (simp add: isClassDefinition_def)
        next
          case True
          show ?thesis
          proof (cases "get host h p ''constructor''")
            case None
            with \<open>typeof h v = Some t\<close> tv p True show ?thesis by (simp add: isClassDefinition_def)
          next
            case (Some c)
            with \<open>typeof h v = Some t\<close> tv p True assms nan [OF tv] show ?thesis
              by (auto simp: isClassDefinition_def strict_eq_def)
          qed
        qed
      qed
    qed
  qed
qed

theorem isClassDefinition_not_IE11_witness:
  "\<not> isIE11 browser
   \<and> isClassDefinition browser class_heap (VRef 7) = Some True
   \<and> isClassDefinition browser class_heap (VRef 6) = Some False
   \<and> isClassDefinition browser class_heap (VNum (Finite 5)) = Some False"
proof -
  have ie: "\<not> isIE11 browser" by code_simp
  have a: "typeof class_heap (VRef 7) = Some ''function''
           \<and> (\<exists>p. get browser class_heap (VRef 7) ''prototype'' = Some p \<and> truthy p
                   \<and> get browser class_heap p ''constructor'' = Some (VRef 7))"
  proof -
    have "typeof class_heap (VRef 7) = Some ''function''" by code_simp
    moreover have "get browser class_heap (VRef 7) ''prototype'' = Some (VRef 6)" by code_simp
    moreover have "truthy (VRef 6)" by code_simp
    moreover have "get browser class_heap (VRef 6) ''constructor'' = Some (VRef 7)" by code_simp
    ultimately show ?thesis by blast
  qed
  have b: "isClassDefinition browser class_heap (VRef 6) = Some False" by code_simp
  have c: "isClassDefinition browser class_heap (VNum (Finite 5)) = Some False" by code_simp
  from isClassDefinition_not_IE11 [OF ie, of class_heap "VRef 7"] a
  have "isClassDefinition browser class_heap (VRef 7) = Some True" by blast
  with ie b c show ?thesis by blast
qed

subsection \<open>padLeft\<close>

lemma concat_replicate_commute: "concat (replicate k p) @ p = p @ concat (replicate k p)"
  by (induction k) simp_all

lemma padLeft_loop_done: "\<not> int (length str) < t \<Longrightarrow> padLeft_loop str t p = Some str"
  by (subst padLeft_loop.simps) simp

lemma padLeft_loop_pads:
  "(\<And>j. j < k \<Longrightarrow> int (length str) + int j * int (length p) < t) \<Longrightarrow>
   padLeft_loop str t p = padLeft_loop (concat (replicate k p) @ str) t p"
proof (induction k arbitrary: str)
  case 0
  then show ?case by simp
next
  case (Suc k)
  from Suc.prems [of 0] have short: "int (length str) < t" by simp
  have step: "padLeft_loop str t p = padLeft_loop (p @ str) t p"
    using short by (subst padLeft_loop.simps) simp
  have "\<And>j. j < k \<Longrightarrow> int (length (p @ str)) + int j * int (length p) < t"
  proof -
    fix j assume "j < k"
    then have "Suc j < Suc k" by simp
    from Suc.prems [OF this] show "int (length (p @ str)) + int j * int (length p) < t"
      by (simp add: algebra_simps)
  qed
  from Suc.IH [OF this] have "padLeft_loop (p @ str) t p = padLeft_loop (concat (replicate k p) @ p @ str) t p" .
  also have "concat (replicate k p) @ p @ str = concat (replicate (Suc k) p) @ str"
    using concat_replicate_commute [of k p] by (simp flip: append_assoc)
  finally show ?case using step by simp
qed

lemma substring_tail:
  assumes "1 \<le> t" and "t < int (length s)"
  shows "substring s (int (length s) - t) (int (length s) - 1) = butlast (drop (length s - nat t) s)"
    and "int (length (butlast (drop (length s - nat t) s))) = t - 1"
proof -
  have n: "nat (int (length s) - t) = length s - nat t" using assms by linarith
  have "substring s (int (length s) - t) (int (length s) - 1)
        = take (nat (t - 1)) (drop (length s - nat t) s)"
    using assms by (simp add: substring_def Let_def min_def max_def n)
  also have "\<dots> = butlast (drop (length s - nat t) s)"
  proof -
    have "length (drop (length s - nat t) s) = nat t" using assms by simp
    then have "nat (t - 1) = length (drop (length s - nat t) s) - 1" using assms by linarith
    then show ?thesis by (simp only: butlast_conv_take)
  qed
  finally show "substring s (int (length s) - t) (int (length s) - 1) = butlast (drop (length s - nat t) s)" .
  show "int (length (butlast (drop (length s - nat t) s))) = t - 1"
    using assms by simp
qed

lemma padLeft_of_loop:
  assumes "padLeft_loop str t p = Some s" and "1 \<le> t" and "t < int (length s)"
  shows "padLeft str t p = Some (butlast (drop (length s - nat t) s))"
  using assms substring_tail(1) [OF assms(2,3)] by (simp add: padLeft_def)

text \<open>
  Claim C10. With a target length of at least 1, a string longer than the target comes
  back as its characters from position \<open>length - targetLength\<close> up to but without the
  last one, which are \<open>targetLength - 1\<close> characters. The same happens to the padded
  string when \<open>k\<close> copies of \<open>padWith\<close> are what it takes to reach the target and they
  overshoot it.
\<close>

theorem padLeft_truncates_one_short:
  assumes "1 \<le> targetLength"
  shows "(targetLength < int (length str) \<longrightarrow>
            padLeft str targetLength padWith
              = Some (butlast (drop (length str - nat targetLength) str))
            \<and> int (length (butlast (drop (length str - nat targetLength) str))) = targetLength - 1)
       \<and> (\<forall>k padded.
            0 < k \<and> padded = concat (replicate k padWith) @ str
            \<and> int (length str) + int (k - 1) * int (length padWith) < targetLength
            \<and> targetLength < int (length padded) \<longrightarrow>
            padLeft str targetLength padWith
              = Some (butlast (drop (length padded - nat targetLength) padded))
            \<and> int (length (butlast (drop (length padded - nat targetLength) padded)))
                = targetLength - 1)"
proof (intro conjI impI allI)
  assume long: "targetLength < int (length str)"
  then have "padLeft_loop str targetLength padWith = Some str"
    by (simp add: padLeft_loop_done)
  from padLeft_of_loop [OF this assms long]
  show "padLeft str targetLength padWith = Some (butlast (drop (length str - nat targetLength) str))" .
  from substring_tail(2) [OF assms long]
  show "int (length (butlast (drop (length str - nat targetLength) str))) = targetLength - 1" .
next
  fix k padded
  assume a: "0 < k \<and> padded = concat (replicate k padWith) @ str
            \<and> int (length str) + int (k - 1) * int (length padWith) < targetLength
            \<and> targetLength < int (length padded)"
  then have k: "0 < k" and padded: "padded = concat (replicate k padWith) @ str"
    and before: "int (length str) + int (k - 1) * int (length padWith) < targetLength"
    and over: "targetLength < int (length padded)" by blast+
  have "\<And>j. j < k \<Longrightarrow> int (length str) + int j * int (length padWith) < targetLength"
  proof -
    fix j assume "j < k"
    then have "j \<le> k - 1" by simp
    then have "int j * int (length padWith) \<le> int (k - 1) * int (length padWith)"
      by (intro mult_right_mono) simp_all
    with before show "int (length str) + int j * int (length padWith) < targetLength" by linarith
  qed
  from padLeft_loop_pads [OF this] have "padLeft_loop str targetLength padWith = padLeft_loop padded targetLength padWith"
    by (simp add: padded)
  also have "\<dots> = Some padded" using over by (simp add: padLeft_loop_done)
  finally have loop: "padLeft_loop str targetLength padWith = Some padded" .
  from padLeft_of_loop [OF loop assms over]
  show "padLeft str targetLength padWith = Some (butlast (drop (length padded - nat targetLength) padded))" .
  from substring_tail(2) [OF assms over]
  show "int (length (butlast (drop (length padded - nat targetLength) padded))) = targetLength - 1" .
qed

theorem padLeft_truncates_one_short_witness:
  "(1::int) \<le> 3 \<and> (3::int) < int (length ''abcdef'') \<and> padLeft ''abcdef'' 3 ''0'' = Some ''de''
   \<and> (1::int) \<le> 2 \<and> padLeft ''a'' 2 ''xy'' = Some ''y''"
proof -
  have one: "(1::int) \<le> 3" by simp
  have two: "(1::int) \<le> 2" by simp
  have long: "(3::int) < int (length ''abcdef'')" by simp
  from padLeft_truncates_one_short [OF one, of "''abcdef''" "''0''"] long
  have a: "padLeft ''abcdef'' 3 ''0'' = Some ''de''" by simp
  from padLeft_truncates_one_short [OF two, of "''a''" "''xy''"]
  have "0 < (1::nat) \<and> ''xya'' = concat (replicate 1 ''xy'') @ ''a''
            \<and> int (length ''a'') + int (1 - 1) * int (length ''xy'') < 2
            \<and> (2::int) < int (length ''xya'') \<longrightarrow>
            padLeft ''a'' 2 ''xy'' = Some (butlast (drop (length ''xya'' - nat 2) ''xya''))"
    by blast
  then have b: "padLeft ''a'' 2 ''xy'' = Some ''y''" by simp
  from one two long a b show ?thesis by simp
qed

subsection \<open>Arrays\<close>










subsection \<open>Plain records\<close>
















subsection \<open>The source is never written to\<close>



subsection \<open>Totality\<close>



text \<open>
  The function branch calls \<open>sourceFunctionObject.hasOwnProperty(key)\<close> at line 183
  without the test that the record branch makes at line 192. A function that shadows
  \<open>hasOwnProperty\<close> with something that is not a function makes the call raise; such
  functions are not among the values that can be cloned.
\<close>

lemma deepClone_shadowing_function_raises:
  "deepClone browser 1 shadowing_function (VRef 6)
   = Some (shadowing_function
           @ [Obj (FunctionK (Forwarder 6)) (VRef 2)
                [(''length'', Prop (VNum (Finite 0)) False),
                 (''name'', Prop (VStr []) False),
                 (''prototype'', Prop VUndefined False)]],
           Inl TypeError)"
  by code_simp



subsection \<open>Maps, sets and functions are copied one level deep\<close>

lemma set_entry_new: "k \<notin> fst ` set acc \<Longrightarrow> set_entry acc k v = acc @ [(k, v)]"
  by (induction acc k v rule: set_entry.induct) auto

lemma map_loop_distinct:
  "distinct (map fst es) \<Longrightarrow> fst ` set acc \<inter> fst ` set es = {} \<Longrightarrow>
   map_loop (h @ [Obj (MapK acc) pt qs]) (length h) es = h @ [Obj (MapK (acc @ es)) pt qs]"
proof (induction es arbitrary: acc)
  case Nil
  then show ?case by simp
next
  case (Cons e es)
  obtain k v where e: "e = (k, v)" by (cases e)
  from Cons.prems e have new: "k \<notin> fst ` set acc" by auto
  have step: "map_set (h @ [Obj (MapK acc) pt qs]) (length h) k v
              = h @ [Obj (MapK (acc @ [(k, v)])) pt qs]"
    by (simp add: map_set_def modify_def set_entry_new [OF new])
  from Cons.prems e have "distinct (map fst es)" and "fst ` set (acc @ [(k, v)]) \<inter> fst ` set es = {}"
    by auto
  from Cons.IH [OF this] step e show ?case by simp
qed

text \<open>
  Claim C1. The clone of a Map is a new Map with the entries of the source in the order of
  the source. The claim that every key and value has been cloned recursively does not
  hold of the code: line 162 inserts the key and the value it is given, so the entries of
  the clone are the very values of the source, references included.
\<close>

theorem deepClone_map_by_reference:
  assumes "lookup h m = Some (Obj (MapK es) p ps)"
    and "has_Map host"
    and "distinct (map fst es)"
  shows "deepClone host (Suc n) h (VRef m)
         = Some (h @ [Obj (MapK es) (map_prototype host) []], Inr (VRef (length h)))"
proof -
  let ?h1 = "h @ [Obj (MapK []) (map_prototype host) []]"
  from assms(1) have t: "typeof h (VRef m) = Some ''object''"
    and sh: "\<not> isArray h (VRef m)" "instanceof_Map h (VRef m)"
    and en: "entries h (VRef m) = es"
    by (simp_all add: typeof_def isArray_def instanceof_Map_def entries_def)
  have "entries ?h1 (VRef m) = entries h (VRef m)"
    by (rule shape_prefix(7) [OF t]) simp
  with en have en1: "entries ?h1 (VRef m) = es" by simp
  from map_loop_distinct [OF assms(3), of "[]" h "map_prototype host" "[]"]
  have "map_loop ?h1 (length h) es = h @ [Obj (MapK es) (map_prototype host) []]" by simp
  with t en1 assms(2) show ?thesis by (simp add: sh alloc_def)
qed

theorem deepClone_map_by_reference_witness:
  "lookup map_heap 7 = Some (Obj (MapK [(VStr ''k'', VRef 6)]) (VRef 4) [])
   \<and> has_Map browser
   \<and> distinct (map fst [(VStr ''k'', VRef 6)])
   \<and> deepClone browser (Suc 0) map_heap (VRef 7)
       = Some (map_heap @ [Obj (MapK [(VStr ''k'', VRef 6)]) (map_prototype browser) []],
               Inr (VRef (length map_heap)))"
proof -
  have l: "lookup map_heap 7 = Some (Obj (MapK [(VStr ''k'', VRef 6)]) (VRef 4) [])" by code_simp
  have m: "has_Map browser" by code_simp
  have d: "distinct (map fst [(VStr ''k'', VRef 6)])" by simp
  from l m d deepClone_map_by_reference [OF l m d, of 0] show ?thesis by blast
qed

text \<open>
  Claim C2. The clone of the Map \<open>{"k" \<rightarrow> [1]}\<close> does share storage with the source:
  both hold the array at reference 6 under \<open>"k"\<close>, and a \<open>push\<close> on the value of the clone
  shows in the value of the source. The clone of the Set \<open>{[1]}\<close> has the array of the
  source as its member in the same way.
\<close>

theorem deepClone_map_shares_storage:
  "deepClone browser 1 map_heap (VRef 7)
     = Some (map_heap @ [Obj (MapK [(VStr ''k'', VRef 6)]) (VRef 4) []], Inr (VRef 8))
   \<and> entries (map_heap @ [Obj (MapK [(VStr ''k'', VRef 6)]) (VRef 4) []]) (VRef 8)
       = [(VStr ''k'', VRef 6)]
   \<and> entries (map_heap @ [Obj (MapK [(VStr ''k'', VRef 6)]) (VRef 4) []]) (VRef 7)
       = [(VStr ''k'', VRef 6)]
   \<and> elements (map_heap @ [Obj (MapK [(VStr ''k'', VRef 6)]) (VRef 4) []]) (VRef 6)
       = [VNum (Finite 1)]
   \<and> elements (push (map_heap @ [Obj (MapK [(VStr ''k'', VRef 6)]) (VRef 4) []]) 6
                  (VNum (Finite 2))) (VRef 6)
       = [VNum (Finite 1), VNum (Finite 2)]
   \<and> deepClone browser 1 set_heap (VRef 7)
       = Some (set_heap @ [Obj (SetK [VRef 6]) (VRef 5) []], Inr (VRef 8))"
  by code_simp

text \<open>
  Claim C3. The clone of the function \<open>f\<close> with \<open>f.tag = "x"\<close> and \<open>f.data = [1]\<close> forwards
  its calls to \<open>f\<close> (the clone applied to 5 is 6 when \<open>f\<close> adds one), has the prototype
  object of \<open>f\<close> under \<open>prototype\<close> and has its own \<open>tag\<close>: writing the \<open>tag\<close> of the clone
  leaves that of \<open>f\<close>. Its \<open>data\<close>, though, is the array of \<open>f\<close> itself and not a clone
  of it: line 184 assigns the property value as it is.
\<close>

theorem deepClone_function_shares_property_values:
  "deepClone browser 1 function_heap (VRef 8)
     = Some (function_heap
             @ [Obj (FunctionK (Forwarder 8)) (VRef 2)
                  [(''length'', Prop (VNum (Finite 0)) False),
                   (''name'', Prop (VStr []) False),
                   (''prototype'', Prop (VRef 7) False),
                   (''tag'', Prop (VStr ''x'') True),
                   (''data'', Prop (VRef 6) True)]],
             Inr (VRef 9))
   \<and> get browser function_heap (VRef 8) ''data'' = Some (VRef 6)
   \<and> invoke browser
        (function_heap
         @ [Obj (FunctionK (Forwarder 8)) (VRef 2)
              [(''length'', Prop (VNum (Finite 0)) False),
               (''name'', Prop (VStr []) False),
               (''prototype'', Prop (VRef 7) False),
               (''tag'', Prop (VStr ''x'') True),
               (''data'', Prop (VRef 6) True)]])
        (VRef 9) VUndefined [VNum (Finite 5)]
       = Some (Inr (VNum (Finite 6)))
   \<and> get browser
        (put (function_heap
              @ [Obj (FunctionK (Forwarder 8)) (VRef 2)
                   [(''length'', Prop (VNum (Finite 0)) False),
                    (''name'', Prop (VStr []) False),
                    (''prototype'', Prop (VRef 7) False),
                    (''tag'', Prop (VStr ''x'') True),
                    (''data'', Prop (VRef 6) True)]])
           9 ''tag'' (VStr ''y''))
        (VRef 8) ''tag''
       = Some (VStr ''x'')"
  by code_simp

end
